theory Spec2Isabelle
  imports Main "HOL-Library.Sublist"
begin

section \<open>Python strings\<close>

text \<open>
  A Python \<open>str\<close> is modelled as a \<open>string\<close>; every \<open>char\<close> stands for one code
  point in the range 0..255, so \<open>length\<close> is Python's \<open>len\<close>.
\<close>

abbreviation LF :: char where
  "LF \<equiv> CHR 0x0A"

definition py_isspace :: "char \<Rightarrow> bool" where
  \<comment> \<open>\<open>str.isspace\<close> on one code point below 256: TAB..CR, FS..US, space, NEL, NBSP.\<close>
  "py_isspace c =
     (let n = (of_char c :: nat)
      in (9 \<le> n \<and> n \<le> 13) \<or> (28 \<le> n \<and> n \<le> 32) \<or> n = 133 \<or> n = 160)"

definition py_strip :: "string \<Rightarrow> string" where
  \<comment> \<open>\<open>s.strip()\<close>: leading and trailing whitespace removed.\<close>
  "py_strip s = rev (dropWhile py_isspace (rev (dropWhile py_isspace s)))"

definition adjust_index :: "nat \<Rightarrow> int \<Rightarrow> nat" where
  \<comment> \<open>A slice bound against a sequence of length \<open>n\<close>: a negative bound counts from the
      end, and every bound is clipped into \<open>0..n\<close>.\<close>
  "adjust_index n i =
     (if i < 0 then (if int n + i < 0 then 0 else nat (int n + i))
      else (if int n < i then n else nat i))"

definition py_slice :: "'a list \<Rightarrow> int \<Rightarrow> int \<Rightarrow> 'a list" where
  \<comment> \<open>\<open>s[start:stop]\<close>\<close>
  "py_slice s start stop =
     (let lo = adjust_index (length s) start; hi = adjust_index (length s) stop
      in take (hi - lo) (drop lo s))"

function py_split_from :: "string \<Rightarrow> string \<Rightarrow> string \<Rightarrow> string list" where
  \<comment> \<open>The left-to-right scan of \<open>s.split(sep)\<close> for a non-empty \<open>sep\<close>; \<open>acc\<close> is the
      piece read since the last separator.\<close>
  "py_split_from sep acc s =
     (if s = [] then [acc]
      else if sep \<noteq> [] \<and> prefix sep s then acc # py_split_from sep [] (drop (length sep) s)
      else py_split_from sep (acc @ [hd s]) (tl s))"
  by pat_completeness auto
termination
  by (relation "measure (\<lambda>(sep, acc, s). length s)") auto

definition py_split :: "string \<Rightarrow> string \<Rightarrow> string list" where
  \<comment> \<open>\<open>s.split(sep)\<close>; the source only calls it with the separator \<open>"\n\n"\<close>.\<close>
  "py_split s sep = py_split_from sep [] s"

section \<open>Title extraction\<close>

definition NNN :: string where
  "NNN = [LF, LF, LF]"

fun dot_plus_then_gap :: "nat \<Rightarrow> string \<Rightarrow> string option" where
  \<comment> \<open>\<open>.+\<close> tried on \<open>k\<close> characters, then on fewer (backtracking), each time followed
      by three line feeds; the result is the matched text.\<close>
  "dot_plus_then_gap 0 s = None"
| "dot_plus_then_gap (Suc k) s =
     (if prefix NNN (drop (Suc k) s) then Some (take (Suc k) s @ NNN)
      else dot_plus_then_gap k s)"

definition title_search :: "string \<Rightarrow> string option" where
  \<comment> \<open>\<open>re.compile(r"^.+(\n\n\n)").search(text)\<close>, giving \<open>group(0)\<close>. Without the
      MULTILINE flag \<open>^\<close> holds at index 0 only, and \<open>.\<close> is any character but a line
      feed, so the greedy \<open>.+\<close> starts with the whole run before the first line feed.\<close>
  "title_search text = dot_plus_then_gap (length (takeWhile (\<lambda>c. c \<noteq> LF) text)) text"

definition get_title :: "string \<Rightarrow> string" where
  \<comment> \<open>The argument is the text \<open>f.read()\<close> returns for the file at \<open>file_path\<close>.\<close>
  "get_title text = (case title_search text of Some g \<Rightarrow> py_strip g | None \<Rightarrow> [])"

section \<open>Exceptions\<close>

text \<open>
  The exception classes the source raises or handles, each carrying the text \<open>str(e)\<close>
  gives. \<open>FileNotFoundError\<close> and \<open>FileExistsError\<close> are subclasses of \<open>OSError\<close>;
  \<open>OSError\<close> here is any other instance of that class. \<open>TypeError\<close> and
  \<open>OtherException\<close> are outside the classes the command handles.
\<close>

datatype py_exc =
    FileNotFoundError string
  | JSONDecodeError string
  | FileExistsError string
  | OSError string
  | TypeError string
  | OtherException string

section \<open>The HTML document under construction\<close>

text \<open>
  What the calls on the \<open>yattag\<close> document build: \<open>Tag\<close> is a \<open>with tag(...)\<close> block
  (attributes as \<open>doc.attr\<close> and the keyword arguments give them), \<open>STag\<close> is
  \<open>doc.stag\<close>, \<open>Text\<close> is \<open>doc.text\<close> and \<open>AsIs\<close> is \<open>doc.asis\<close>.
\<close>

datatype node =
    Tag string "(string \<times> string) list" "node list"
  | STag string "(string \<times> string) list"
  | Text string
  | AsIs string

definition line :: "string \<Rightarrow> string \<Rightarrow> node" where
  \<comment> \<open>\<open>line(tag_name, text_content)\<close>: an element holding one text node.\<close>
  "line tag_name text_content = Tag tag_name [] [Text text_content]"

definition html_escape_char :: "char \<Rightarrow> string" where
  "html_escape_char c =
     (if c = CHR ''&'' then ''&amp;''
      else if c = CHR ''<'' then ''&lt;''
      else if c = CHR ''>'' then ''&gt;''
      else [c])"

definition html_escape :: "string \<Rightarrow> string" where
  \<comment> \<open>The escaping \<open>doc.text\<close> applies: \<open>&\<close>, \<open><\<close> and \<open>>\<close> become entities.\<close>
  "html_escape s = concat (map html_escape_char s)"

definition attr_escape_char :: "char \<Rightarrow> string" where
  "attr_escape_char c =
     (if c = CHR ''&'' then ''&amp;''
      else if c = CHR ''<'' then ''&lt;''
      else if c = CHR 0x22 then ''&quot;''
      else [c])"

definition attr_escape :: "string \<Rightarrow> string" where
  \<comment> \<open>The escaping of an attribute value: \<open>&\<close>, \<open><\<close> and the double quote.\<close>
  "attr_escape s = concat (map attr_escape_char s)"

definition render_attrs :: "(string \<times> string) list \<Rightarrow> string" where
  "render_attrs attrs =
     concat (map (\<lambda>(k, v). '' '' @ k @ ''='' @ [CHR 0x22] @ attr_escape v @ [CHR 0x22]) attrs)"

fun getvalue :: "node \<Rightarrow> string" where
  \<comment> \<open>The text \<open>doc.getvalue()\<close> holds for one node.\<close>
  "getvalue (Tag name attrs children) =
     ''<'' @ name @ render_attrs attrs @ ''>'' @ concat (map getvalue children)
       @ ''</'' @ name @ ''>''"
| "getvalue (STag name attrs) = ''<'' @ name @ render_attrs attrs @ '' />''"
| "getvalue (Text s) = html_escape s"
| "getvalue (AsIs s) = s"

section \<open>Options\<close>

record options =
  input_path :: "string option"
  stylesheet_url :: "string option"
  lang :: string
  description :: string
  title :: string
  content :: string
  slug :: string

section \<open>Rendering\<close>

definition get_html_head :: "options \<Rightarrow> node" where
  "get_html_head opts =
     Tag ''head'' []
       ([STag ''meta'' [(''charset'', ''utf-8'')],
         STag ''meta'' [(''name'', ''viewport''),
                        (''content'', ''width=device-width, initial-scale=1'')],
         STag ''meta'' [(''name'', ''description''), (''content'', description opts)],
         STag ''meta'' [(''property'', ''og:description''), (''content'', description opts)],
         Tag ''title'' [] [Text (title opts)]]
        @ (case stylesheet_url opts of
             None \<Rightarrow> []
           | Some url \<Rightarrow> [STag ''link'' [(''rel'', ''stylesheet''), (''href'', url)]]))"

definition paragraphs_of :: "string \<Rightarrow> string \<Rightarrow> string list" where
  \<comment> \<open>\<open>options.content[len(options.title) + 1 : -1].strip().split("\n\n")\<close>\<close>
  "paragraphs_of ttl cont =
     py_split (py_strip (py_slice cont (int (length ttl) + 1) (- 1))) [LF, LF]"

definition parse_text :: "string \<Rightarrow> options \<Rightarrow> options \<times> node list" where
  \<comment> \<open>The first argument is the text of the file at \<open>options.input_path\<close>, which
      \<open>get_title\<close> reads; the result is the options with the title assigned, and the
      elements the calls of \<open>line\<close> append.\<close>
  "parse_text file_text opts =
     (let opts1 = opts\<lparr>title := get_title file_text\<rparr>;
          paragraphs = paragraphs_of (title opts1) (content opts1)
      in (opts1,
          (if title opts1 \<noteq> [] then [line ''h1'' (title opts1)] else [])
          @ map (line ''p'') paragraphs))"

definition parse_markdown :: "(string \<Rightarrow> string) \<Rightarrow> string \<Rightarrow> node list" where
  \<comment> \<open>The first argument is \<open>markdown.markdown\<close>.\<close>
  "parse_markdown md cont = [AsIs (md (py_strip cont))]"

text \<open>
  The library functions rendering relies on: reading a text file (\<open>open\<close> and
  \<open>read\<close>, which may raise), \<open>Path(p).suffix\<close>, \<open>markdown.markdown\<close> and \<open>yattag\<close>'s
  \<open>indent\<close>.
\<close>

record libs =
  read_text :: "string \<Rightarrow> py_exc + string"
  path_suffix :: "string \<Rightarrow> string"
  markdown :: "string \<Rightarrow> string"
  indent :: "string \<Rightarrow> string"

definition body_nodes :: "'a libs_scheme \<Rightarrow> options \<Rightarrow> py_exc + options \<times> node list" where
  \<comment> \<open>The block under \<open>with tag("body")\<close>. \<open>Path(None)\<close> raises \<open>TypeError\<close>.\<close>
  "body_nodes L opts =
     (case input_path opts of
        None \<Rightarrow> Inl (TypeError ''expected str, bytes or os.PathLike object, not NoneType'')
      | Some p \<Rightarrow>
          (let file_extension = path_suffix L p
           in if file_extension = ''.txt'' then
                (case read_text L p of
                   Inl e \<Rightarrow> Inl e
                 | Inr file_text \<Rightarrow> Inr (parse_text file_text opts))
              else if file_extension = ''.md'' then
                Inr (opts, parse_markdown (markdown L) (content opts))
              else Inr (opts, [])))"

definition document :: "'a libs_scheme \<Rightarrow> options \<Rightarrow> py_exc + options \<times> node" where
  \<comment> \<open>The \<open>html\<close> element \<open>get_html\<close> builds; the head is built before the body, from
      the options as they are on entry.\<close>
  "document L opts =
     (case body_nodes L opts of
        Inl e \<Rightarrow> Inl e
      | Inr (opts1, body) \<Rightarrow>
          Inr (opts1, Tag ''html'' [(''lang'', lang opts)]
                        [get_html_head opts, Tag ''body'' [] body]))"

definition get_html :: "'a libs_scheme \<Rightarrow> options \<Rightarrow> py_exc + options \<times> string" where
  "get_html L opts =
     (case document L opts of
        Inl e \<Rightarrow> Inl e
      | Inr (opts1, html) \<Rightarrow> Inr (opts1, indent L (''<!DOCTYPE html>'' @ getvalue html)))"

section \<open>The output directory and the console\<close>

datatype console_msg =
    Failure string
  | Success string

text \<open>
  \<open>Failure m\<close> is the text \<open>click.echo\<close> prints for a handled exception: the
  failure colour, the cross mark, \<open>m\<close>, and the end of the colour. \<open>Success s\<close> is the
  success message for the slug \<open>s\<close>. The state of a run is the output directory (the
  paths that exist in it, and the text of its files) and what has been printed. Input
  files lie outside the output directory.
\<close>

record world =
  paths :: "string set"
  files :: "string \<rightharpoonup> string"
  console :: "console_msg list"

record cli =
  arg_input_path :: "string option"
  arg_stylesheet :: "string option"
  arg_lang :: "string option"
  arg_config :: "string option"

text \<open>
  What the command imports besides the rendering libraries: the constants of
  \<open>silkie.definitions\<close>, \<open>is_filetype_supported\<close> of \<open>silkie.utils\<close>, the constructor and
  \<open>load_metadata\<close> of \<open>GeneratorOptions\<close>, \<open>path.isfile\<close>, \<open>path.isdir\<close>,
  \<open>glob.glob(path.join(dir, "*" + extension))\<close> as a function of the directory and the
  extension, \<open>Path(a).joinpath(Path(b))\<close>, and the directories
  \<open>mkdir(parents=True, exist_ok=True)\<close> brings into existence for a path.
\<close>

record env = libs +
  DIST_DIRECTORY_PATH :: string
  SUPORTED_FILE_EXTENSIONS :: "string list"
  is_filetype_supported :: "string \<Rightarrow> bool"
  new_options :: "cli \<Rightarrow> py_exc + options"
  load_metadata :: "options \<Rightarrow> py_exc + options"
  isfile :: "string \<Rightarrow> bool"
  isdir :: "string \<Rightarrow> bool"
  glob :: "string \<Rightarrow> string \<Rightarrow> string list"
  joinpath :: "string \<Rightarrow> string \<Rightarrow> string"
  mkdir_parents :: "string \<Rightarrow> string set"

definition duplicate_message :: "string \<Rightarrow> string" where
  "duplicate_message s =
     ''warn: Duplicate routes found!'' @ [LF] @ s @ '' is already taken by another document''"

definition build_folder_structure :: "env \<Rightarrow> options \<Rightarrow> world \<Rightarrow> py_exc + string \<times> world" where
  "build_folder_structure E opts w =
     (let route = joinpath E (DIST_DIRECTORY_PATH E) (slug opts @ ''.html'')
      in if route \<in> paths w then Inl (FileExistsError (duplicate_message (slug opts)))
         else Inr (route, w\<lparr>paths := paths w \<union> mkdir_parents E route\<rparr>))"

definition write_static_file :: "string \<Rightarrow> string \<Rightarrow> options \<Rightarrow> world \<Rightarrow> world" where
  "write_static_file cont destination opts w =
     w\<lparr>paths := insert destination (paths w),
       files := (files w)(destination \<mapsto> cont),
       console := console w @ [Success (slug opts)]\<rparr>"

definition generate_static_file :: "env \<Rightarrow> options \<Rightarrow> world \<Rightarrow> (py_exc + options) \<times> world" where
  \<comment> \<open>The result is the exception raised or the options as the call leaves them, and
      the state at that point.\<close>
  "generate_static_file E opts w =
     (case get_html E opts of
        Inl e \<Rightarrow> (Inl e, w)
      | Inr (opts1, html) \<Rightarrow>
          (case build_folder_structure E opts1 w of
             Inl e \<Rightarrow> (Inl e, w)
           | Inr (file_path, w1) \<Rightarrow> (Inr opts1, write_static_file html file_path opts1 w1)))"

section \<open>The command\<close>

definition process_file :: "env \<Rightarrow> string \<Rightarrow> options \<Rightarrow> world \<Rightarrow> (py_exc + options) \<times> world" where
  \<comment> \<open>The body of the loop over the files of a directory.\<close>
  "process_file E filepath opts w =
     (case load_metadata E (opts\<lparr>input_path := Some filepath\<rparr>) of
        Inl e \<Rightarrow> (Inl e, w)
      | Inr opts1 \<Rightarrow> generate_static_file E opts1 w)"

fun process_files :: "env \<Rightarrow> string list \<Rightarrow> options \<Rightarrow> world \<Rightarrow> (py_exc + options) \<times> world" where
  \<comment> \<open>\<open>for filepath in glob.glob(...)\<close>\<close>
  "process_files E [] opts w = (Inr opts, w)"
| "process_files E (filepath # rest) opts w =
     (case process_file E filepath opts w of
        (Inl e, w1) \<Rightarrow> (Inl e, w1)
      | (Inr opts1, w1) \<Rightarrow> process_files E rest opts1 w1)"

fun process_extensions ::
  "env \<Rightarrow> string \<Rightarrow> string list \<Rightarrow> options \<Rightarrow> world \<Rightarrow> (py_exc + options) \<times> world" where
  \<comment> \<open>\<open>for extension in definitions.SUPORTED_FILE_EXTENSIONS\<close>\<close>
  "process_extensions E dir_path [] opts w = (Inr opts, w)"
| "process_extensions E dir_path (extension # rest) opts w =
     (case process_files E (glob E dir_path extension) opts w of
        (Inl e, w1) \<Rightarrow> (Inl e, w1)
      | (Inr opts1, w1) \<Rightarrow> process_extensions E dir_path rest opts1 w1)"

definition clean_build :: "env \<Rightarrow> world \<Rightarrow> world" where
  \<comment> \<open>\<open>shutil.rmtree(DIST, ignore_errors=True)\<close>, then \<open>makedirs(DIST, exist_ok=True)\<close>.\<close>
  "clean_build E w = w\<lparr>paths := {DIST_DIRECTORY_PATH E}, files := Map.empty\<rparr>"

definition none_path_error :: py_exc where
  \<comment> \<open>What \<open>path.isfile(None)\<close> and \<open>path.isdir(None)\<close> raise.\<close>
  "none_path_error =
     TypeError ''stat: path should be string, bytes, os.PathLike or integer, not NoneType''"

definition single_file :: "env \<Rightarrow> options \<Rightarrow> world \<Rightarrow> (py_exc + options) \<times> world" where
  \<comment> \<open>The first \<open>if\<close> of the command: one supported file.\<close>
  "single_file E opts w =
     (case input_path opts of
        None \<Rightarrow> (Inl none_path_error, w)
      | Some p \<Rightarrow>
          if isfile E p \<and> is_filetype_supported E p then
            (case load_metadata E opts of
               Inl e \<Rightarrow> (Inl e, w)
             | Inr opts1 \<Rightarrow> generate_static_file E opts1 w)
          else (Inr opts, w))"

definition directory :: "env \<Rightarrow> options \<Rightarrow> world \<Rightarrow> (py_exc + options) \<times> world" where
  \<comment> \<open>The second \<open>if\<close> of the command: every file of a directory.\<close>
  "directory E opts w =
     (case input_path opts of
        None \<Rightarrow> (Inl none_path_error, w)
      | Some dir_path \<Rightarrow>
          if isdir E dir_path then
            process_extensions E dir_path (SUPORTED_FILE_EXTENSIONS E) opts w
          else (Inr opts, w))"

definition silkie_try :: "env \<Rightarrow> cli \<Rightarrow> world \<Rightarrow> py_exc option \<times> world" where
  \<comment> \<open>The \<open>try\<close> block: the exception that leaves it, if any, and the state then.\<close>
  "silkie_try E args w =
     (case new_options E args of
        Inl e \<Rightarrow> (Some e, w)
      | Inr opts \<Rightarrow>
          (case single_file E opts (clean_build E w) of
             (Inl e, w1) \<Rightarrow> (Some e, w1)
           | (Inr opts1, w1) \<Rightarrow>
               (case directory E opts1 w1 of
                  (Inl e, w2) \<Rightarrow> (Some e, w2)
                | (Inr opts2, w2) \<Rightarrow> (None, w2))))"

definition echo :: "console_msg \<Rightarrow> world \<Rightarrow> world" where
  "echo m w = w\<lparr>console := console w @ [m]\<rparr>"

fun handler :: "py_exc \<Rightarrow> world \<Rightarrow> py_exc option \<times> world" where
  \<comment> \<open>The three \<open>except\<close> clauses; an exception of no listed class leaves the command.\<close>
  "handler (FileNotFoundError m) w = (None, echo (Failure m) w)"
| "handler (JSONDecodeError m) w = (None, echo (Failure m) w)"
| "handler (FileExistsError m) w = (None, echo (Failure m) w)"
| "handler (OSError m) w = (None, echo (Failure m) w)"
| "handler (TypeError m) w = (Some (TypeError m), w)"
| "handler (OtherException m) w = (Some (OtherException m), w)"

definition silkie :: "env \<Rightarrow> cli \<Rightarrow> world \<Rightarrow> py_exc option \<times> world" where
  \<comment> \<open>The command: the exception that reaches the caller (a traceback), if any, and the
      final state.\<close>
  "silkie E args w =
     (case silkie_try E args w of
        (None, w1) \<Rightarrow> (None, w1)
      | (Some e, w1) \<Rightarrow> handler e w1)"

section \<open>Notions the properties are stated in\<close>

definition first_line :: "string \<Rightarrow> string" where
  "first_line text = takeWhile (\<lambda>c. c \<noteq> LF) text"

definition gap_after_first_line :: "string \<Rightarrow> nat" where
  \<comment> \<open>How many line feeds follow the first line without interruption.\<close>
  "gap_after_first_line text =
     length (takeWhile (\<lambda>c. c = LF) (dropWhile (\<lambda>c. c \<noteq> LF) text))"

definition exactly_two_blank_lines :: "string \<Rightarrow> bool" where
  \<comment> \<open>The first line is followed by exactly two blank lines: a gap of exactly three
      line feeds.\<close>
  "exactly_two_blank_lines text = (gap_after_first_line text = 3)"

fun find_elements :: "string \<Rightarrow> node \<Rightarrow> node list" where
  \<comment> \<open>The elements of a given name in a tree, in document order.\<close>
  "find_elements n (Tag name attrs children) =
     (if name = n then [Tag name attrs children] else [])
     @ concat (map (find_elements n) children)"
| "find_elements n (STag name attrs) = (if name = n then [STag name attrs] else [])"
| "find_elements n (Text s) = []"
| "find_elements n (AsIs s) = []"

fun occurrences :: "string \<Rightarrow> string \<Rightarrow> nat" where
  \<comment> \<open>At how many positions of a text a non-empty pattern begins.\<close>
  "occurrences pat [] = 0"
| "occurrences pat (c # cs) = (if prefix pat (c # cs) then 1 else 0) + occurrences pat cs"

fun in_taxonomy :: "py_exc \<Rightarrow> bool" where
  \<comment> \<open>NotFound, MalformedConfig, DuplicateRoute and OSFailure, as exception classes.\<close>
  "in_taxonomy (FileNotFoundError m) = True"
| "in_taxonomy (JSONDecodeError m) = True"
| "in_taxonomy (FileExistsError m) = True"
| "in_taxonomy (OSError m) = True"
| "in_taxonomy (TypeError m) = False"
| "in_taxonomy (OtherException m) = False"

fun exc_str :: "py_exc \<Rightarrow> string" where
  \<comment> \<open>\<open>str(e)\<close>\<close>
  "exc_str (FileNotFoundError m) = m"
| "exc_str (JSONDecodeError m) = m"
| "exc_str (FileExistsError m) = m"
| "exc_str (OSError m) = m"
| "exc_str (TypeError m) = m"
| "exc_str (OtherException m) = m"

fun message_text :: "console_msg \<Rightarrow> string" where
  "message_text (Failure m) = m"
| "message_text (Success s) = s"

definition single_line :: "console_msg \<Rightarrow> bool" where
  \<comment> \<open>The message takes one line of the console: its text holds no line feed.\<close>
  "single_line m = (LF \<notin> set (message_text m))"

definition no_flags :: cli where
  "no_flags = \<lparr>arg_input_path = None, arg_stylesheet = None, arg_lang = None, arg_config = None\<rparr>"

section \<open>An instance of the environment\<close>

definition posix_name :: "string \<Rightarrow> string" where
  \<comment> \<open>The last component of a path written without a trailing slash.\<close>
  "posix_name p = rev (takeWhile (\<lambda>c. c \<noteq> CHR ''/'') (rev p))"

definition posix_parent :: "string \<Rightarrow> string" where
  "posix_parent p = rev (drop 1 (dropWhile (\<lambda>c. c \<noteq> CHR ''/'') (rev p)))"

definition posix_suffix :: "string \<Rightarrow> string" where
  \<comment> \<open>From the last dot of the name on, when that dot is neither its first nor its last
      character.\<close>
  "posix_suffix p =
     (let name = posix_name p; ext = rev (takeWhile (\<lambda>c. c \<noteq> CHR ''.'') (rev name))
      in if CHR ''.'' \<in> set name \<and> ext \<noteq> [] \<and> Suc (length ext) < length name
         then CHR ''.'' # ext else [])"

definition posix_stem :: "string \<Rightarrow> string" where
  "posix_stem p =
     (let name = posix_name p
      in take (length name - length (posix_suffix p)) name)"

definition GeneratorOptions_init ::
  "(string \<Rightarrow> bool) \<Rightarrow> (string \<Rightarrow> py_exc + cli) \<Rightarrow> cli \<Rightarrow> py_exc + options" where
  \<comment> \<open>Modelled from the spec: the constructor of \<open>GeneratorOptions\<close> (\<open>silkie.options\<close> is
      not among the sources). By section 4.1 it is given an input path, the values of
      the config file are defaults that explicit flags override, an input path or a
      config path that does not exist is a NotFound error, and the language defaults to
      a fixed tag (\<open>en-CA\<close> by the help text of the command). By section 3 every
      configuration has an input path, so that none at all, from the flags or from the
      config file, is the NotFound error as well. The arguments are the test whether a
      path exists and the reading of a config file.\<close>
  "GeneratorOptions_init path_exists read_config args =
     (case (case arg_config args of
              None \<Rightarrow> Inr no_flags
            | Some c \<Rightarrow> if path_exists c then read_config c else Inl (FileNotFoundError c)) of
        Inl e \<Rightarrow> Inl e
      | Inr defaults \<Rightarrow>
          (let pick = (\<lambda>flag dflt. case flag of Some v \<Rightarrow> Some v | None \<Rightarrow> dflt)
           in case pick (arg_input_path args) (arg_input_path defaults) of
                None \<Rightarrow> Inl (FileNotFoundError [])
              | Some p \<Rightarrow>
                  if path_exists p then
                    Inr \<lparr>input_path = Some p,
                         stylesheet_url = pick (arg_stylesheet args) (arg_stylesheet defaults),
                         lang = (case pick (arg_lang args) (arg_lang defaults) of
                                   Some l \<Rightarrow> l | None \<Rightarrow> ''en-CA''),
                         description = [], title = [], content = [], slug = []\<rparr>
                  else Inl (FileNotFoundError p)))"

definition load_metadata_stem :: "(string \<Rightarrow> py_exc + string) \<Rightarrow> options \<Rightarrow> py_exc + options" where
  \<comment> \<open>Modelled from the spec: \<open>GeneratorOptions.load_metadata\<close> (\<open>silkie.options\<close> is not
      among the sources). By sections 3 and 4.2 and the glossary the content is the raw
      text of the input file, the title is the one the extractor detects, and the slug
      is the stem of the file name. The argument is the reading of a text file.\<close>
  "load_metadata_stem rd opts =
     (case input_path opts of
        None \<Rightarrow> Inl none_path_error
      | Some p \<Rightarrow>
          (case rd p of
             Inl e \<Rightarrow> Inl e
           | Inr file_text \<Rightarrow>
               Inr (opts\<lparr>title := get_title file_text, content := file_text,
                         slug := posix_stem p\<rparr>)))"

definition example_env :: "(string \<times> string) list \<Rightarrow> string list \<Rightarrow> env" where
  \<comment> \<open>An environment over the given input files (path and text) and input directories,
      with the output directory \<open>dist\<close>. The Markdown engine is represented on files of
      one paragraph, whose text it wraps in \<open><p>\<close> and where it leaves inline HTML as it
      is; \<open>indent\<close> is represented by the identity.\<close>
  "example_env fs dirs =
     (let rd = (\<lambda>p. case map_of fs p of
                      None \<Rightarrow> Inl (FileNotFoundError p) | Some t \<Rightarrow> Inr t)
      in \<lparr>read_text = rd,
          path_suffix = posix_suffix,
          markdown = (\<lambda>s. ''<p>'' @ s @ ''</p>''),
          indent = (\<lambda>s. s),
          DIST_DIRECTORY_PATH = ''dist'',
          SUPORTED_FILE_EXTENSIONS = [''.txt'', ''.md''],
          is_filetype_supported = (\<lambda>p. posix_suffix p \<in> set [''.txt'', ''.md'']),
          new_options =
            GeneratorOptions_init (\<lambda>p. p \<in> set (map fst fs) \<or> p \<in> set dirs)
              (\<lambda>c. Inl (JSONDecodeError c)),
          load_metadata = load_metadata_stem rd,
          isfile = (\<lambda>p. p \<in> set (map fst fs)),
          isdir = (\<lambda>p. p \<in> set dirs),
          glob = (\<lambda>d x. filter (\<lambda>p. posix_parent p = d \<and> posix_suffix p = x) (map fst fs)),
          joinpath = (\<lambda>a b. a @ ''/'' @ b),
          mkdir_parents = (\<lambda>p. {posix_parent p})\<rparr>)"

definition text_options :: "string \<Rightarrow> options" where
  \<comment> \<open>The options for a text file \<open>page.txt\<close> with the given text.\<close>
  "text_options file_text =
     \<lparr>input_path = Some ''page.txt'', stylesheet_url = None, lang = ''en-CA'',
      description = [], title = [], content = file_text, slug = ''page''\<rparr>"

definition link_md_options :: options where
  \<comment> \<open>The options for a Markdown file \<open>page.md\<close> whose text is one inline HTML element, a
      stylesheet link; no stylesheet is configured.\<close>
  "link_md_options =
     \<lparr>input_path = Some ''page.md'', stylesheet_url = None, lang = ''en-CA'',
      description = [], title = [], content = ''<link rel=stylesheet href=evil.css>'',
      slug = ''page''\<rparr>"

definition link_md_env :: env where
  "link_md_env = example_env [(''page.md'', ''<link rel=stylesheet href=evil.css>'')] []"

definition empty_dist :: world where
  "empty_dist = \<lparr>paths = {''dist''}, files = Map.empty, console = []\<rparr>"

definition old_dist :: world where
  \<comment> \<open>An output directory holding the file of an earlier run.\<close>
  "old_dist = \<lparr>paths = {''dist'', ''dist/old.html''},
               files = [''dist/old.html'' \<mapsto> ''<!DOCTYPE html>''], console = []\<rparr>"

definition fresh_dist :: "env \<Rightarrow> world" where
  \<comment> \<open>The output directory as a clean build leaves it, and nothing printed.\<close>
  "fresh_dist E = \<lparr>paths = {DIST_DIRECTORY_PATH E}, files = Map.empty, console = []\<rparr>"

definition example_site :: env where
  \<comment> \<open>A directory \<open>site\<close> holding \<open>a.txt\<close>, \<open>a.md\<close> and \<open>b.md\<close>.\<close>
  "example_site =
     example_env [(''site/a.txt'', ''Hi''), (''site/a.md'', ''Hi''), (''site/b.md'', ''Yo'')]
       [''site'']"

definition site_args :: cli where
  "site_args = no_flags\<lparr>arg_input_path := Some ''site''\<rparr>"

definition site_options :: options where
  \<comment> \<open>The options for the directory \<open>site\<close>, before any file is loaded.\<close>
  "site_options =
     \<lparr>input_path = Some ''site'', stylesheet_url = None, lang = ''en-CA'',
      description = [], title = [], content = [], slug = []\<rparr>"

definition site_a_txt :: options where
  \<comment> \<open>The options with the file \<open>site/a.txt\<close> loaded.\<close>
  "site_a_txt =
     \<lparr>input_path = Some ''site/a.txt'', stylesheet_url = None, lang = ''en-CA'',
      description = [], title = [], content = ''Hi'', slug = ''a''\<rparr>"

definition site_a_md :: options where
  \<comment> \<open>The options with the file \<open>site/a.md\<close> loaded.\<close>
  "site_a_md =
     \<lparr>input_path = Some ''site/a.md'', stylesheet_url = None, lang = ''en-CA'',
      description = [], title = [], content = ''Hi'', slug = ''a''\<rparr>"

definition shift :: "console_msg list \<Rightarrow> world \<Rightarrow> world" where
  \<comment> \<open>The same state with earlier console output in front.\<close>
  "shift c w = w\<lparr>console := c @ console w\<rparr>"

section \<open>Strings: stripping, searching and slicing\<close>

lemma py_isspace_LF: "py_isspace LF"
  by (simp add: py_isspace_def)

lemma py_strip_gap: "py_strip (l @ NNN) = py_strip l"
proof (cases "\<forall>c\<in>set l. py_isspace c")
  case True
  then have a: "dropWhile py_isspace l = []" by simp
  have "dropWhile py_isspace (l @ NNN) = dropWhile py_isspace NNN"
    using True by (simp add: dropWhile_append2)
  then have b: "dropWhile py_isspace (l @ NNN) = []"
    by (simp add: NNN_def py_isspace_LF)
  show ?thesis by (simp add: py_strip_def a b)
next
  case False
  then obtain c where c: "c \<in> set l" "\<not> py_isspace c" by blast
  then have d: "dropWhile py_isspace (l @ NNN) = dropWhile py_isspace l @ NNN"
    by (simp add: dropWhile_append1)
  show ?thesis
    unfolding py_strip_def d by (simp add: NNN_def py_isspace_LF)
qed

lemma run_nth: "i < length (takeWhile (\<lambda>c. c \<noteq> LF) s) \<Longrightarrow> s ! i \<noteq> LF"
  using nth_mem[of i "takeWhile (\<lambda>c. c \<noteq> LF) s"] set_takeWhileD[of "s ! i" "\<lambda>c. c \<noteq> LF" s]
  by (simp add: takeWhile_nth)

lemma prefix_NNN_nth: "prefix NNN (drop k s) \<Longrightarrow> k < length s \<and> s ! k = LF"
proof -
  assume p: "prefix NNN (drop k s)"
  then obtain r where r: "drop k s = LF # r" by (auto simp: NNN_def prefix_def)
  then have "k < length s" by (cases "k < length s") auto
  moreover from this r have "s ! k = LF" by (metis hd_drop_conv_nth list.sel(1))
  ultimately show ?thesis by simp
qed

lemma dot_plus_below_run:
  "k < length (takeWhile (\<lambda>c. c \<noteq> LF) s) \<Longrightarrow> dot_plus_then_gap k s = None"
proof (induction k)
  case 0
  show ?case by simp
next
  case (Suc k)
  from Suc.prems have "s ! Suc k \<noteq> LF" by (rule run_nth)
  then have "\<not> prefix NNN (drop (Suc k) s)" using prefix_NNN_nth by blast
  with Suc show ?case by simp
qed

lemma title_search_eq:
  "title_search s =
     (if first_line s \<noteq> [] \<and> prefix NNN (dropWhile (\<lambda>c. c \<noteq> LF) s)
      then Some (first_line s @ NNN) else None)"
proof (cases "length (takeWhile (\<lambda>c. c \<noteq> LF) s)")
  case 0
  then show ?thesis by (simp add: title_search_def first_line_def)
next
  case (Suc k)
  have t: "take (Suc k) s = takeWhile (\<lambda>c. c \<noteq> LF) s"
    using Suc takeWhile_eq_take[of "\<lambda>c. c \<noteq> LF" s] by simp
  have d: "drop (Suc k) s = dropWhile (\<lambda>c. c \<noteq> LF) s"
    using Suc dropWhile_eq_drop[of "\<lambda>c. c \<noteq> LF" s] by simp
  have n: "dot_plus_then_gap k s = None"
    using Suc dot_plus_below_run[of k s] by simp
  from Suc have ne: "first_line s \<noteq> []" by (auto simp: first_line_def)
  show ?thesis
    using ne by (simp add: title_search_def Suc t d n first_line_def)
qed

lemma prefix_NNN_gap:
  "prefix NNN r \<longleftrightarrow> 3 \<le> length (takeWhile (\<lambda>c. c = LF) r)"
proof (cases r)
  case Nil
  then show ?thesis by (simp add: NNN_def)
next
  case (Cons a r1)
  show ?thesis
  proof (cases r1)
    case Nil
    with Cons show ?thesis by (simp add: NNN_def)
  next
    case c2: (Cons b r2)
    show ?thesis
    proof (cases r2)
      case Nil
      with Cons c2 show ?thesis by (simp add: NNN_def)
    next
      case c3: (Cons c r3)
      with Cons c2 show ?thesis by (simp add: NNN_def)
    qed
  qed
qed

lemma get_title_eq:
  "get_title s =
     (if first_line s \<noteq> [] \<and> 3 \<le> gap_after_first_line s then py_strip (first_line s) else [])"
  by (simp add: get_title_def title_search_eq prefix_NNN_gap gap_after_first_line_def
      py_strip_gap)

lemma py_strip_Nil: "py_strip [] = []"
  by (simp add: py_strip_def)

lemma py_slice_tail:
  "py_slice s (int k + 1) (- 1) = drop (Suc k) (butlast s)"
proof -
  have lo: "adjust_index (length s) (int k + 1) = min (length s) (Suc k)"
    by (auto simp: adjust_index_def)
  have hi: "adjust_index (length s) (- 1) = length s - 1"
    by (auto simp: adjust_index_def)
  show ?thesis
  proof (cases "Suc k \<le> length s")
    case True
    then show ?thesis
      by (simp add: py_slice_def lo hi butlast_conv_take drop_take min_def)
  next
    case False
    then show ?thesis
      by (simp add: py_slice_def lo hi min_def)
  qed
qed

lemma py_slice_one: "py_slice s 1 (- 1) = tl (butlast s)"
  using py_slice_tail [of s 0] by (simp add: drop_Suc)

lemmas eval_defs = parse_text_def paragraphs_of_def get_title_def title_search_def NNN_def
  py_strip_def py_isspace_def py_slice_def adjust_index_def py_split_def line_def
  html_escape_def html_escape_char_def render_attrs_def text_options_def

section \<open>The title\<close>

text \<open>
  Claim C2, as the code has it: the title extractor returns a non-empty title if and only
  if the first line is followed by at least two blank lines (three or more line feeds
  right after it) and holds a character that is not whitespace; a title that exists is
  the first line with the surrounding whitespace trimmed, and otherwise the extractor
  returns the empty string.
\<close>

theorem get_title_iff:
  "(get_title s \<noteq> [] \<longleftrightarrow> 3 \<le> gap_after_first_line s \<and> py_strip (first_line s) \<noteq> [])
   \<and> (get_title s \<noteq> [] \<longrightarrow> get_title s = py_strip (first_line s))"
  by (auto simp: get_title_eq py_strip_Nil)

theorem get_title_iff_witness:
  "3 \<le> gap_after_first_line ''Hello \<newline>\<newline>\<newline>World''
   \<and> py_strip (first_line ''Hello \<newline>\<newline>\<newline>World'') = ''Hello''
   \<and> get_title ''Hello \<newline>\<newline>\<newline>World'' = ''Hello''"
  using get_title_iff [of "''Hello \<newline>\<newline>\<newline>World''"]
  by (simp add: gap_after_first_line_def first_line_def py_strip_def py_isspace_def)

text \<open>
  The claim with "exactly two blank lines" fails in both directions: a blank first line
  followed by exactly two blank lines gives the empty title, and a first line followed
  by three blank lines gives a title.
\<close>

theorem get_title_exactly_counterexample:
  "exactly_two_blank_lines ''  \<newline>\<newline>\<newline>X'' \<and> get_title ''  \<newline>\<newline>\<newline>X'' = []
   \<and> \<not> exactly_two_blank_lines ''Hello\<newline>\<newline>\<newline>\<newline>World''
   \<and> get_title ''Hello\<newline>\<newline>\<newline>\<newline>World'' = ''Hello''"
  by (simp add: exactly_two_blank_lines_def gap_after_first_line_def eval_defs)

section \<open>Paragraphs of a text file\<close>

lemma parse_text_elements:
  "snd (parse_text ft opts) =
     (if get_title ft \<noteq> [] then [line ''h1'' (get_title ft)] else [])
     @ map (line ''p'') (paragraphs_of (get_title ft) (content opts))"
  by (simp add: parse_text_def Let_def)

lemma parse_text_options: "fst (parse_text ft opts) = opts\<lparr>title := get_title ft\<rparr>"
  by (simp add: parse_text_def Let_def)

text \<open>
  Claim C10: the paragraphs of a text file are computed from the content from index
  \<open>len(title) + 1\<close> on and without its final character, stripped and split at
  \<open>"\n\n"\<close>. So the last character of the content never reaches the split, and when
  no title is detected the first character is left out as well.
\<close>

theorem parse_text_slice:
  "snd (parse_text ft opts) =
     (if get_title ft \<noteq> [] then [line ''h1'' (get_title ft)] else [])
     @ map (line ''p'')
         (py_split
            (py_strip (py_slice (content opts) (int (length (get_title ft)) + 1) (- 1)))
            [LF, LF])
   \<and> py_slice (content opts) (int (length (get_title ft)) + 1) (- 1)
       = drop (Suc (length (get_title ft))) (butlast (content opts))
   \<and> paragraphs_of t (c @ [x]) = py_split (py_strip (drop (Suc (length t)) c)) [LF, LF]
   \<and> (get_title ft = [] \<longrightarrow>
        snd (parse_text ft opts)
          = map (line ''p'') (py_split (py_strip (butlast (tl (content opts)))) [LF, LF]))"
proof (intro conjI impI)
  show "snd (parse_text ft opts) =
     (if get_title ft \<noteq> [] then [line ''h1'' (get_title ft)] else [])
     @ map (line ''p'')
         (py_split
            (py_strip (py_slice (content opts) (int (length (get_title ft)) + 1) (- 1)))
            [LF, LF])"
    by (simp add: parse_text_elements paragraphs_of_def)
next
  show "py_slice (content opts) (int (length (get_title ft)) + 1) (- 1)
       = drop (Suc (length (get_title ft))) (butlast (content opts))"
    by (rule py_slice_tail)
next
  show "paragraphs_of t (c @ [x]) = py_split (py_strip (drop (Suc (length t)) c)) [LF, LF]"
    by (simp add: paragraphs_of_def py_slice_tail)
next
  assume "get_title ft = []"
  then show "snd (parse_text ft opts)
          = map (line ''p'') (py_split (py_strip (butlast (tl (content opts)))) [LF, LF])"
    by (simp add: parse_text_elements paragraphs_of_def py_slice_one butlast_tl)
qed

theorem parse_text_slice_witness:
  "get_title ''abc'' = []
   \<and> snd (parse_text ''abc'' (text_options ''abc'')) = [line ''p'' ''b'']"
  using parse_text_slice [of "''abc''" "text_options ''abc''"]
  by (simp add: get_title_eq first_line_def gap_after_first_line_def text_options_def
      py_strip_def py_isspace_def py_split_def)

text \<open>
  Claim C1: for the text \<open>"Hello\n\n\nWorld\n\nFoo bar"\<close> the body should hold
  \<open><h1>Hello</h1>\<close>, \<open><p>World</p>\<close> and \<open><p>Foo bar</p>\<close>. The code cuts the final
  character of the content before it splits, so the last paragraph it emits is
  \<open><p>Foo ba</p>\<close>.
\<close>

theorem hello_world_last_character_lost:
  "snd (parse_text ''Hello\<newline>\<newline>\<newline>World\<newline>\<newline>Foo bar''
         (text_options ''Hello\<newline>\<newline>\<newline>World\<newline>\<newline>Foo bar''))
     = [line ''h1'' ''Hello'', line ''p'' ''World'', line ''p'' ''Foo ba'']
   \<and> map getvalue [line ''h1'' ''Hello'', line ''p'' ''World'', line ''p'' ''Foo ba'']
     = [''<h1>Hello</h1>'', ''<p>World</p>'', ''<p>Foo ba</p>'']"
  by (simp add: eval_defs)

text \<open>
  Claim C3: the renderer should remove the title and its separator, split all of the
  remaining content into paragraphs and emit one \<open><p>\<close> for each. On a text without a
  title the code leaves out the first and the last character of the content: the two
  paragraphs of \<open>"First\n\nSecond"\<close> come out as \<open>irst\<close> and \<open>Secon\<close>.
\<close>

theorem no_title_both_ends_lost:
  "snd (parse_text ''First\<newline>\<newline>Second'' (text_options ''First\<newline>\<newline>Second''))
     = [line ''p'' ''irst'', line ''p'' ''Secon'']
   \<and> map getvalue [line ''p'' ''irst'', line ''p'' ''Secon''] = [''<p>irst</p>'', ''<p>Secon</p>'']"
  by (simp add: eval_defs)

section \<open>Elements of the document\<close>

lemmas env_defs = example_env_def posix_suffix_def posix_name_def posix_parent_def
  posix_stem_def Let_def

lemma find_in_head:
  "find_elements ''link'' (get_html_head opts) =
     (case stylesheet_url opts of
        None \<Rightarrow> []
      | Some url \<Rightarrow> [STag ''link'' [(''rel'', ''stylesheet''), (''href'', url)]])"
  by (cases "stylesheet_url opts") (simp_all add: get_html_head_def)

lemma find_h1_in_head: "find_elements ''h1'' (get_html_head opts) = []"
  by (cases "stylesheet_url opts") (simp_all add: get_html_head_def)

lemma find_h1_in_parse_text:
  "get_title ft = [] \<Longrightarrow> concat (map (find_elements ''h1'') (snd (parse_text ft opts))) = []"
  by (simp add: parse_text_elements line_def)

lemma lt_notin_html_escape: "CHR ''<'' \<notin> set (html_escape s)"
  by (induction s) (auto simp: html_escape_def html_escape_char_def)

lemma lt_notin_attr_escape: "CHR ''<'' \<notin> set (attr_escape s)"
  by (induction s) (auto simp: attr_escape_def attr_escape_char_def)

lemma occurrences_skip:
  "CHR ''<'' \<notin> set seg \<Longrightarrow>
   occurrences (CHR ''<'' # pat) (seg @ rest) = occurrences (CHR ''<'' # pat) rest"
  by (induction seg) auto

lemma occurrences_html_escape:
  "occurrences (CHR ''<'' # pat) (html_escape s @ rest) = occurrences (CHR ''<'' # pat) rest"
  by (rule occurrences_skip) (rule lt_notin_html_escape)

lemma occurrences_attr_escape:
  "occurrences (CHR ''<'' # pat) (attr_escape s @ rest) = occurrences (CHR ''<'' # pat) rest"
  by (rule occurrences_skip) (rule lt_notin_attr_escape)

lemma head_links:
  "occurrences ''<link'' (getvalue (get_html_head opts) @ rest) =
     (case stylesheet_url opts of None \<Rightarrow> 0 | Some url \<Rightarrow> 1) + occurrences ''<link'' rest"
  by (cases "stylesheet_url opts")
     (simp_all add: get_html_head_def render_attrs_def occurrences_html_escape
        occurrences_attr_escape)

lemma getvalue_line:
  "getvalue (line tg t) = ''<'' @ tg @ ''>'' @ html_escape t @ ''</'' @ tg @ ''>''"
  by (simp add: line_def render_attrs_def)

lemma p_lines_links:
  "occurrences ''<link'' (concat (map (getvalue \<circ> line ''p'') ps) @ rest)
     = occurrences ''<link'' rest"
  by (induction ps) (simp_all add: getvalue_line occurrences_html_escape)

lemma parse_text_links:
  "occurrences ''<link'' (concat (map getvalue (snd (parse_text ft opts))) @ rest)
     = occurrences ''<link'' rest"
  by (simp add: parse_text_elements p_lines_links getvalue_line occurrences_html_escape)

lemma get_html_text:
  "get_html L opts = Inr (opts1, out) \<Longrightarrow>
   \<exists>body. body_nodes L opts = Inr (opts1, body)
     \<and> out = indent L (''<!DOCTYPE html>''
         @ getvalue (Tag ''html'' [(''lang'', lang opts)]
                       [get_html_head opts, Tag ''body'' [] body]))"
  by (auto simp: get_html_def document_def split: sum.splits prod.splits)

lemma document_links:
  "occurrences ''<link''
     (''<!DOCTYPE html>''
        @ getvalue (Tag ''html'' [(''lang'', lang opts)]
                      [get_html_head opts, Tag ''body'' [] (snd (parse_text ft opts))]))
     = (case stylesheet_url opts of None \<Rightarrow> 0 | Some url \<Rightarrow> 1)"
  by (simp add: render_attrs_def occurrences_attr_escape head_links parse_text_links)

lemma body_nodes_txt:
  "body_nodes L opts = Inr (opts1, body) \<Longrightarrow> input_path opts = Some p \<Longrightarrow>
   path_suffix L p = ''.txt'' \<Longrightarrow> \<exists>ft. body = snd (parse_text ft opts)"
  by (auto simp: body_nodes_def split: sum.splits) (metis snd_conv)

lemma page_with_stylesheet:
  "\<exists>opts1 out.
     get_html (example_env [(''page.txt'', ''Hi'')] [])
       ((text_options ''Hi'')\<lparr>stylesheet_url := Some ''style.css''\<rparr>) = Inr (opts1, out)"
  by (simp add: get_html_def document_def body_nodes_def env_defs text_options_def
      parse_text_def)

text \<open>
  Claim C6, as the code has it: the text of the head holds exactly one \<open><link\<close> when a
  stylesheet URL is configured, the element with \<open>rel="stylesheet"\<close> and that URL as
  \<open>href\<close>, and none when no URL is configured; every generated document holds that head;
  and the whole document of a text file holds as many links as its head. Nothing is said
  of the body of a Markdown file, which is the output of the Markdown engine as it is.
\<close>

theorem stylesheet_link:
  "occurrences ''<link'' (getvalue (get_html_head opts))
     = (case stylesheet_url opts of None \<Rightarrow> 0 | Some url \<Rightarrow> 1)
   \<and> find_elements ''link'' (get_html_head opts)
     = (case stylesheet_url opts of
          None \<Rightarrow> []
        | Some url \<Rightarrow> [STag ''link'' [(''rel'', ''stylesheet''), (''href'', url)]])
   \<and> (get_html L opts = Inr (opts1, out) \<longrightarrow>
        (\<exists>body. out = indent L (''<!DOCTYPE html>''
                    @ getvalue (Tag ''html'' [(''lang'', lang opts)]
                                  [get_html_head opts, Tag ''body'' [] body]))
           \<and> (input_path opts = Some p \<and> path_suffix L p = ''.txt'' \<longrightarrow>
                occurrences ''<link''
                  (''<!DOCTYPE html>''
                     @ getvalue (Tag ''html'' [(''lang'', lang opts)]
                                   [get_html_head opts, Tag ''body'' [] body]))
                  = (case stylesheet_url opts of None \<Rightarrow> 0 | Some url \<Rightarrow> 1))))"
proof (intro conjI impI)
  show "occurrences ''<link'' (getvalue (get_html_head opts))
     = (case stylesheet_url opts of None \<Rightarrow> 0 | Some url \<Rightarrow> 1)"
    using head_links [of opts "[]"] by simp
next
  show "find_elements ''link'' (get_html_head opts)
     = (case stylesheet_url opts of
          None \<Rightarrow> []
        | Some url \<Rightarrow> [STag ''link'' [(''rel'', ''stylesheet''), (''href'', url)]])"
    by (rule find_in_head)
next
  assume g: "get_html L opts = Inr (opts1, out)"
  then obtain body where b: "body_nodes L opts = Inr (opts1, body)"
    and o: "out = indent L (''<!DOCTYPE html>''
         @ getvalue (Tag ''html'' [(''lang'', lang opts)]
                       [get_html_head opts, Tag ''body'' [] body]))"
    using get_html_text by blast
  have "input_path opts = Some p \<and> path_suffix L p = ''.txt'' \<longrightarrow>
        occurrences ''<link''
          (''<!DOCTYPE html>''
             @ getvalue (Tag ''html'' [(''lang'', lang opts)]
                           [get_html_head opts, Tag ''body'' [] body]))
          = (case stylesheet_url opts of None \<Rightarrow> 0 | Some url \<Rightarrow> 1)"
  proof
    assume "input_path opts = Some p \<and> path_suffix L p = ''.txt''"
    with b obtain ft where "body = snd (parse_text ft opts)"
      using body_nodes_txt by blast
    then show "occurrences ''<link''
          (''<!DOCTYPE html>''
             @ getvalue (Tag ''html'' [(''lang'', lang opts)]
                           [get_html_head opts, Tag ''body'' [] body]))
          = (case stylesheet_url opts of None \<Rightarrow> 0 | Some url \<Rightarrow> 1)"
      using document_links [of opts ft] by simp
  qed
  with o show "\<exists>body. out = indent L (''<!DOCTYPE html>''
                    @ getvalue (Tag ''html'' [(''lang'', lang opts)]
                                  [get_html_head opts, Tag ''body'' [] body]))
           \<and> (input_path opts = Some p \<and> path_suffix L p = ''.txt'' \<longrightarrow>
                occurrences ''<link''
                  (''<!DOCTYPE html>''
                     @ getvalue (Tag ''html'' [(''lang'', lang opts)]
                                   [get_html_head opts, Tag ''body'' [] body]))
                  = (case stylesheet_url opts of None \<Rightarrow> 0 | Some url \<Rightarrow> 1))"
    by blast
qed

theorem stylesheet_link_witness:
  "\<exists>opts1 out.
     get_html (example_env [(''page.txt'', ''Hi'')] [])
       ((text_options ''Hi'')\<lparr>stylesheet_url := Some ''style.css''\<rparr>) = Inr (opts1, out)
     \<and> occurrences ''<link'' out = 1"
proof -
  obtain opts1 out where g:
    "get_html (example_env [(''page.txt'', ''Hi'')] [])
       ((text_options ''Hi'')\<lparr>stylesheet_url := Some ''style.css''\<rparr>) = Inr (opts1, out)"
    using page_with_stylesheet by blast
  have "occurrences ''<link'' out = 1"
    using g stylesheet_link [of "(text_options ''Hi'')\<lparr>stylesheet_url := Some ''style.css''\<rparr>"
        "example_env [(''page.txt'', ''Hi'')] []" opts1 out "''page.txt''"]
    by (auto simp: text_options_def env_defs)
  with g show ?thesis by blast
qed

text \<open>
  The claim fails for Markdown input: with no stylesheet configured, a Markdown file
  whose text is a stylesheet link gives a document that holds that link, in its body.
\<close>

theorem markdown_link_counterexample:
  "stylesheet_url link_md_options = None
   \<and> \<not> isl (get_html link_md_env link_md_options)
   \<and> occurrences ''<link'' (snd (projr (get_html link_md_env link_md_options))) = 1
   \<and> occurrences ''<link rel=stylesheet href=evil.css>''
       (snd (projr (get_html link_md_env link_md_options))) = 1"
  by (simp add: link_md_options_def link_md_env_def get_html_def document_def body_nodes_def
      parse_markdown_def get_html_head_def env_defs render_attrs_def py_strip_def
      py_isspace_def html_escape_def html_escape_char_def attr_escape_def
      attr_escape_char_def)

text \<open>
  Claim C5, as the code has it: for a text file whose content does not begin with a
  non-empty first line followed by at least two blank lines (three or more line feeds
  right after it), the extracted title is empty and the document has no \<open>h1\<close> element.
\<close>

theorem no_title_no_h1:
  assumes "input_path opts = Some p" and "path_suffix L p = ''.txt''"
    and "read_text L p = Inr s"
    and "first_line s = [] \<or> gap_after_first_line s < 3"
  shows "get_title s = []
    \<and> (\<exists>opts1 html. document L opts = Inr (opts1, html) \<and> title opts1 = []
          \<and> find_elements ''h1'' html = [])"
proof -
  from assms(4) have t: "get_title s = []" by (auto simp: get_title_eq)
  have b: "body_nodes L opts = Inr (parse_text s opts)"
    using assms(1-3) by (simp add: body_nodes_def)
  have d: "document L opts =
      Inr (fst (parse_text s opts),
           Tag ''html'' [(''lang'', lang opts)]
             [get_html_head opts, Tag ''body'' [] (snd (parse_text s opts))])"
    by (simp add: document_def b split: prod.splits)
  have "title (fst (parse_text s opts)) = []"
    by (simp add: parse_text_options t)
  moreover have "find_elements ''h1''
      (Tag ''html'' [(''lang'', lang opts)]
         [get_html_head opts, Tag ''body'' [] (snd (parse_text s opts))]) = []"
    using find_h1_in_parse_text [OF t, of opts] by (simp add: find_h1_in_head)
  ultimately show ?thesis using t d by blast
qed

theorem no_title_no_h1_witness:
  "gap_after_first_line ''Hello\<newline>\<newline>World'' < 3
   \<and> get_title ''Hello\<newline>\<newline>World'' = []
   \<and> (\<exists>opts1 html.
         document (example_env [(''page.txt'', ''Hello\<newline>\<newline>World'')] [])
           (text_options ''Hello\<newline>\<newline>World'') = Inr (opts1, html)
         \<and> title opts1 = [] \<and> find_elements ''h1'' html = [])"
  using no_title_no_h1 [of "text_options ''Hello\<newline>\<newline>World''" "''page.txt''"
      "example_env [(''page.txt'', ''Hello\<newline>\<newline>World'')] []" "''Hello\<newline>\<newline>World''"]
  by (simp add: text_options_def env_defs gap_after_first_line_def)

text \<open>
  With "exactly two blank lines" the claim fails: a first line followed by three blank
  lines does not have the exact pattern, and yet it is the title and an \<open>h1\<close>.
\<close>

theorem three_blank_lines_counterexample:
  "\<not> exactly_two_blank_lines ''Hello\<newline>\<newline>\<newline>\<newline>World''
   \<and> get_title ''Hello\<newline>\<newline>\<newline>\<newline>World'' = ''Hello''
   \<and> concat (map (find_elements ''h1'')
        (snd (parse_text ''Hello\<newline>\<newline>\<newline>\<newline>World''
               (text_options ''Hello\<newline>\<newline>\<newline>\<newline>World''))))
       = [line ''h1'' ''Hello'']"
  by (simp add: exactly_two_blank_lines_def gap_after_first_line_def eval_defs)

section \<open>Routes\<close>

lemma body_nodes_slug: "body_nodes L opts = Inr (opts1, body) \<Longrightarrow> slug opts1 = slug opts"
  by (auto simp: body_nodes_def Let_def parse_text_def
      split: option.splits if_splits sum.splits)

lemma get_html_slug: "get_html L opts = Inr (opts1, html) \<Longrightarrow> slug opts1 = slug opts"
  by (auto simp: get_html_def document_def dest: body_nodes_slug split: sum.splits prod.splits)

lemma generate_paths: "generate_static_file E opts w = (r, w1) \<Longrightarrow> paths w \<subseteq> paths w1"
  by (auto simp: generate_static_file_def build_folder_structure_def write_static_file_def
      Let_def split: sum.splits prod.splits if_splits)

lemma process_file_paths: "process_file E f opts w = (r, w1) \<Longrightarrow> paths w \<subseteq> paths w1"
  by (auto simp: process_file_def dest: generate_paths split: sum.splits)

lemma process_files_paths: "process_files E fs opts w = (r, w1) \<Longrightarrow> paths w \<subseteq> paths w1"
proof (induction fs arbitrary: opts w)
  case Nil
  then show ?case by simp
next
  case (Cons f fs)
  obtain r0 w0 where p: "process_file E f opts w = (r0, w0)" by (cases "process_file E f opts w")
  then have s: "paths w \<subseteq> paths w0" by (rule process_file_paths)
  show ?case
  proof (cases r0)
    case (Inl e)
    with Cons.prems p s show ?thesis by simp
  next
    case (Inr o1)
    with Cons.prems p have "process_files E fs o1 w0 = (r, w1)" by simp
    then have "paths w0 \<subseteq> paths w1" by (rule Cons.IH)
    with s show ?thesis by blast
  qed
qed

lemma generate_route:
  "generate_static_file E opts w = (Inr opts1, w1) \<Longrightarrow>
   joinpath E (DIST_DIRECTORY_PATH E) (slug opts @ ''.html'') \<in> paths w1"
  by (auto simp: generate_static_file_def build_folder_structure_def write_static_file_def
      Let_def dest: get_html_slug split: sum.splits prod.splits if_splits)

lemma generate_duplicate:
  assumes first: "generate_static_file E a w0 = (Inr a1, w1)"
    and between: "process_files E fs a1 w1 = (Inr b0, w2)"
    and renders: "get_html E b = Inr (b1, html)"
    and same: "slug b = slug a"
  shows "build_folder_structure E b1 w2 = Inl (FileExistsError (duplicate_message (slug b)))
    \<and> generate_static_file E b w2 = (Inl (FileExistsError (duplicate_message (slug b))), w2)"
proof -
  have "joinpath E (DIST_DIRECTORY_PATH E) (slug a @ ''.html'') \<in> paths w1"
    using first by (rule generate_route)
  moreover have "paths w1 \<subseteq> paths w2" using between by (rule process_files_paths)
  moreover have s: "slug b1 = slug b" using renders by (rule get_html_slug)
  ultimately have taken: "joinpath E (DIST_DIRECTORY_PATH E) (slug b1 @ ''.html'') \<in> paths w2"
    using same by auto
  then have b: "build_folder_structure E b1 w2
      = Inl (FileExistsError (duplicate_message (slug b)))"
    by (simp add: build_folder_structure_def s)
  then show ?thesis by (simp add: generate_static_file_def renders)
qed

text \<open>
  Claim C4: when two input files of one run have the same slug, the first has been
  written and the run reaches the second, generating the second fails with the
  duplicate-route error (its route \<open><output-dir>/<slug>.html\<close> exists), and the output
  directory stays as it was: the second file is not written.
\<close>

theorem duplicate_route:
  assumes first: "generate_static_file E a w0 = (Inr a1, w1)"
    and between: "process_files E fs a1 w1 = (Inr b0, w2)"
    and renders: "get_html E b = Inr (b1, html)"
    and same: "slug b = slug a"
  shows "build_folder_structure E b1 w2 = Inl (FileExistsError (duplicate_message (slug b)))
    \<and> generate_static_file E b w2 = (Inl (FileExistsError (duplicate_message (slug b))), w2)"
  using assms by (rule generate_duplicate)

lemmas run_defs = generate_static_file_def get_html_def document_def body_nodes_def
  build_folder_structure_def write_static_file_def parse_markdown_def get_html_head_def
  example_site_def empty_dist_def

lemma site_first_file:
  "\<exists>w1. generate_static_file example_site site_a_txt empty_dist = (Inr site_a_txt, w1)
     \<and> console w1 = [Success ''a''] \<and> dom (files w1) = {''dist/a.html''}"
  by (simp add: run_defs env_defs eval_defs site_a_txt_def)

lemma site_second_file: "\<exists>html. get_html example_site site_a_md = Inr (site_a_md, html)"
  by (simp add: run_defs env_defs eval_defs site_a_md_def)

theorem duplicate_route_witness:
  "\<exists>w1. generate_static_file example_site site_a_txt empty_dist = (Inr site_a_txt, w1)
     \<and> generate_static_file example_site site_a_md w1
         = (Inl (FileExistsError (duplicate_message ''a'')), w1)"
proof -
  obtain w1 where f: "generate_static_file example_site site_a_txt empty_dist = (Inr site_a_txt, w1)"
    using site_first_file by blast
  have p: "process_files example_site [] site_a_txt w1 = (Inr site_a_txt, w1)" by simp
  obtain html where r: "get_html example_site site_a_md = Inr (site_a_md, html)"
    using site_second_file by blast
  have s: "slug site_a_md = slug site_a_txt" by (simp add: site_a_txt_def site_a_md_def)
  have "generate_static_file example_site site_a_md w1
         = (Inl (FileExistsError (duplicate_message (slug site_a_md))), w1)"
    using duplicate_route [OF f p r s] by blast
  then show ?thesis using f by (simp add: site_a_md_def)
qed

section \<open>Runs and the console\<close>

lemma paths_shift [simp]: "paths (shift c w) = paths w"
  and files_shift [simp]: "files (shift c w) = files w"
  and console_shift [simp]: "console (shift c w) = c @ console w"
  by (simp_all add: shift_def)

lemma build_shift:
  "build_folder_structure E opts (shift c w) =
     (case build_folder_structure E opts w of
        Inl e \<Rightarrow> Inl e | Inr (route, w1) \<Rightarrow> Inr (route, shift c w1))"
  by (simp add: build_folder_structure_def Let_def shift_def)

lemma write_shift:
  "write_static_file h d opts (shift c w) = shift c (write_static_file h d opts w)"
  by (simp add: write_static_file_def shift_def)

lemma generate_shift:
  "generate_static_file E opts (shift c w) =
     (case generate_static_file E opts w of (r, w1) \<Rightarrow> (r, shift c w1))"
  by (simp add: generate_static_file_def build_shift write_shift split: sum.splits prod.splits)

lemma process_file_shift:
  "process_file E f opts (shift c w) =
     (case process_file E f opts w of (r, w1) \<Rightarrow> (r, shift c w1))"
  by (simp add: process_file_def generate_shift split: sum.splits)

lemma process_files_shift:
  "process_files E fs opts (shift c w) =
     (case process_files E fs opts w of (r, w1) \<Rightarrow> (r, shift c w1))"
proof (induction fs arbitrary: opts w)
  case Nil
  show ?case by simp
next
  case (Cons f fs)
  show ?case
    by (simp add: process_file_shift Cons.IH split: prod.splits sum.splits)
qed

lemma process_extensions_shift:
  "process_extensions E d xs opts (shift c w) =
     (case process_extensions E d xs opts w of (r, w1) \<Rightarrow> (r, shift c w1))"
proof (induction xs arbitrary: opts w)
  case Nil
  show ?case by simp
next
  case (Cons x xs)
  show ?case
    by (simp add: process_files_shift Cons.IH split: prod.splits sum.splits)
qed

lemma single_file_shift:
  "single_file E opts (shift c w) =
     (case single_file E opts w of (r, w1) \<Rightarrow> (r, shift c w1))"
  by (simp add: single_file_def generate_shift split: option.splits sum.splits)

lemma directory_shift:
  "directory E opts (shift c w) =
     (case directory E opts w of (r, w1) \<Rightarrow> (r, shift c w1))"
  by (simp add: directory_def process_extensions_shift split: option.splits)

lemma handler_shift:
  "handler e (shift c w) = (case handler e w of (r, w1) \<Rightarrow> (r, shift c w1))"
  by (cases e) (simp_all add: echo_def shift_def)

lemma clean_build_fresh: "clean_build E w = shift (console w) (fresh_dist E)"
  by (simp add: clean_build_def shift_def fresh_dist_def)

lemma clean_build_fresh_dist: "clean_build E (fresh_dist E) = fresh_dist E"
  by (simp add: clean_build_def fresh_dist_def)

lemma silkie_try_fresh:
  "new_options E args = Inr opts \<Longrightarrow>
   silkie_try E args w =
     (case silkie_try E args (fresh_dist E) of (r, w1) \<Rightarrow> (r, shift (console w) w1))"
  by (simp add: silkie_try_def clean_build_fresh_dist)
     (simp add: clean_build_fresh single_file_shift directory_shift
        split: prod.splits sum.splits)

lemma silkie_fresh:
  "new_options E args = Inr opts \<Longrightarrow>
   silkie E args w =
     (case silkie E args (fresh_dist E) of (r, w1) \<Rightarrow> (r, shift (console w) w1))"
  by (simp add: silkie_def silkie_try_fresh [of E args opts w] handler_shift
      split: prod.splits option.splits)

lemma silkie_no_options:
  "new_options E args = Inl e \<Longrightarrow> silkie E args w = handler e w"
  by (simp add: silkie_def silkie_try_def)

lemma handler_dist:
  "paths (snd (handler e w)) = paths w \<and> files (snd (handler e w)) = files w
   \<and> fst (handler e w) = fst (handler e w')
   \<and> console (snd (handler e w)) = console w @ console (snd (handler e (fresh_dist E)))"
  by (cases e) (simp_all add: echo_def fresh_dist_def)

text \<open>
  Claim C8: a second run with the same input files and the same configuration leaves
  the output directory with the same paths and the same file contents as the first, ends
  the same way and prints the same messages again: rendering is a function of its
  inputs, and every run that reaches generation starts from a clean output directory.
\<close>

theorem generation_idempotent:
  "fst (silkie E args (snd (silkie E args w))) = fst (silkie E args w)
   \<and> paths (snd (silkie E args (snd (silkie E args w)))) = paths (snd (silkie E args w))
   \<and> files (snd (silkie E args (snd (silkie E args w)))) = files (snd (silkie E args w))
   \<and> console (snd (silkie E args (snd (silkie E args w))))
       = console (snd (silkie E args w)) @ drop (length (console w)) (console (snd (silkie E args w)))"
proof (cases "new_options E args")
  case (Inl e)
  show ?thesis
    using handler_dist [of e w "snd (handler e w)" E]
      handler_dist [of e "snd (handler e w)" w E]
    by (simp add: silkie_no_options [OF Inl])
next
  case (Inr opts)
  obtain r w1 where f: "silkie E args (fresh_dist E) = (r, w1)"
    by (cases "silkie E args (fresh_dist E)")
  have a: "silkie E args w = (r, shift (console w) w1)"
    by (simp add: silkie_fresh [OF Inr, of w] f)
  have b: "silkie E args (shift (console w) w1) = (r, shift (console w @ console w1) w1)"
    by (simp add: silkie_fresh [OF Inr, of "shift (console w) w1"] f)
  show ?thesis by (simp add: a b)
qed

section \<open>Errors\<close>

lemma process_files_append:
  "process_files E (xs @ ys) opts w =
     (case process_files E xs opts w of
        (Inl e, w1) \<Rightarrow> (Inl e, w1)
      | (Inr opts1, w1) \<Rightarrow> process_files E ys opts1 w1)"
  by (induction xs arbitrary: opts w) (simp_all split: prod.splits sum.splits)

lemma process_extensions_flat:
  "process_extensions E d xs opts w = process_files E (concat (map (glob E d) xs)) opts w"
  by (induction xs arbitrary: opts w)
     (simp_all add: process_files_append split: prod.splits sum.splits)

lemma scan_stops:
  assumes "process_files E pre opts w = (Inr o1, w1)"
    and "process_file E f o1 w1 = (Inl e, w2)"
  shows "process_files E (pre @ f # rest) opts w = (Inl e, w2)"
  using assms by (simp add: process_files_append)

lemma handled:
  "in_taxonomy e \<Longrightarrow> handler e w = (None, echo (Failure (exc_str e)) w)"
  by (cases e) simp_all

lemma site_new_options: "new_options example_site site_args = Inr site_options"
  by (simp add: example_site_def env_defs GeneratorOptions_init_def site_args_def no_flags_def
      site_options_def)

lemma site_clean: "clean_build example_site old_dist = empty_dist"
  by (simp add: clean_build_def example_site_def env_defs old_dist_def empty_dist_def)

lemma site_single: "single_file example_site site_options empty_dist = (Inr site_options, empty_dist)"
  by (simp add: single_file_def example_site_def env_defs site_options_def)

lemma site_dir: "input_path site_options = Some ''site'' \<and> isdir example_site ''site''"
  by (simp add: example_site_def env_defs site_options_def)

lemma site_glob:
  "concat (map (glob example_site ''site'') (SUPORTED_FILE_EXTENSIONS example_site))
     = [''site/a.txt''] @ ''site/a.md'' # [''site/b.md'']"
  by (simp add: example_site_def env_defs)

lemma site_load_a_txt:
  "load_metadata example_site (site_options\<lparr>input_path := Some ''site/a.txt''\<rparr>) = Inr site_a_txt"
  by (simp add: example_site_def env_defs load_metadata_stem_def site_options_def site_a_txt_def
      get_title_eq first_line_def gap_after_first_line_def)

lemma site_load_a_md:
  "load_metadata example_site (site_a_txt\<lparr>input_path := Some ''site/a.md''\<rparr>) = Inr site_a_md"
  by (simp add: example_site_def env_defs load_metadata_stem_def site_a_md_def site_a_txt_def
      get_title_eq first_line_def gap_after_first_line_def)

lemma site_run:
  "\<exists>w1. generate_static_file example_site site_a_txt empty_dist = (Inr site_a_txt, w1)
     \<and> console w1 = [Success ''a''] \<and> dom (files w1) = {''dist/a.html''}
     \<and> process_files example_site [''site/a.txt''] site_options empty_dist = (Inr site_a_txt, w1)
     \<and> process_file example_site ''site/a.md'' site_a_txt w1
         = (Inl (FileExistsError (duplicate_message ''a'')), w1)"
proof -
  obtain w1 where f: "generate_static_file example_site site_a_txt empty_dist = (Inr site_a_txt, w1)"
    and c: "console w1 = [Success ''a'']" "dom (files w1) = {''dist/a.html''}"
    using site_first_file by blast
  have p: "process_files example_site [] site_a_txt w1 = (Inr site_a_txt, w1)" by simp
  obtain html where r: "get_html example_site site_a_md = Inr (site_a_md, html)"
    using site_second_file by blast
  have s: "slug site_a_md = slug site_a_txt" by (simp add: site_a_txt_def site_a_md_def)
  have g: "generate_static_file example_site site_a_md w1
         = (Inl (FileExistsError (duplicate_message ''a'')), w1)"
    using generate_duplicate [OF f p r s] by (simp add: site_a_md_def)
  have "process_files example_site [''site/a.txt''] site_options empty_dist = (Inr site_a_txt, w1)"
    by (simp add: process_file_def site_load_a_txt f)
  moreover have "process_file example_site ''site/a.md'' site_a_txt w1
         = (Inl (FileExistsError (duplicate_message ''a'')), w1)"
    by (simp add: process_file_def site_load_a_md g)
  ultimately show ?thesis using f c by blast
qed

text \<open>
  Claim C7, as the code has it: an exception of the taxonomy (NotFound, MalformedConfig,
  OSFailure, DuplicateRoute) that leaves the \<open>try\<close> block is caught by the command and
  reported by one failure message on the console, and no exception reaches the caller;
  and when a file of a directory scan raises, the exception leaves the \<open>try\<close> block at
  the state reached with that file, so that no later file is processed.
\<close>

theorem errors_reported:
  "(in_taxonomy e \<and> silkie_try E args w = (Some e, w1)
      \<longrightarrow> silkie E args w = (None, echo (Failure (exc_str e)) w1))
   \<and> (new_options E args = Inr opts
      \<and> single_file E opts (clean_build E w) = (Inr o0, w0)
      \<and> input_path o0 = Some d \<and> isdir E d
      \<and> concat (map (glob E d) (SUPORTED_FILE_EXTENSIONS E)) = pre @ f # rest
      \<and> process_files E pre o0 w0 = (Inr o1, w2)
      \<and> process_file E f o1 w2 = (Inl e, w3)
      \<longrightarrow> silkie_try E args w = (Some e, w3))"
proof (intro conjI impI)
  assume "in_taxonomy e \<and> silkie_try E args w = (Some e, w1)"
  then show "silkie E args w = (None, echo (Failure (exc_str e)) w1)"
    by (simp add: silkie_def handled)
next
  assume a: "new_options E args = Inr opts
      \<and> single_file E opts (clean_build E w) = (Inr o0, w0)
      \<and> input_path o0 = Some d \<and> isdir E d
      \<and> concat (map (glob E d) (SUPORTED_FILE_EXTENSIONS E)) = pre @ f # rest
      \<and> process_files E pre o0 w0 = (Inr o1, w2)
      \<and> process_file E f o1 w2 = (Inl e, w3)"
  then have "process_files E (pre @ f # rest) o0 w0 = (Inl e, w3)"
    using scan_stops by blast
  with a have "directory E o0 w0 = (Inl e, w3)"
    by (simp add: directory_def process_extensions_flat)
  with a show "silkie_try E args w = (Some e, w3)"
    by (simp add: silkie_try_def)
qed

theorem errors_reported_witness:
  "\<exists>w1. generate_static_file example_site site_a_txt empty_dist = (Inr site_a_txt, w1)
     \<and> dom (files w1) = {''dist/a.html''}
     \<and> silkie example_site site_args old_dist
         = (None, echo (Failure (duplicate_message ''a'')) w1)"
proof -
  obtain w1 where f: "generate_static_file example_site site_a_txt empty_dist = (Inr site_a_txt, w1)"
    and d: "dom (files w1) = {''dist/a.html''}"
    and p: "process_files example_site [''site/a.txt''] site_options empty_dist = (Inr site_a_txt, w1)"
    and q: "process_file example_site ''site/a.md'' site_a_txt w1
         = (Inl (FileExistsError (duplicate_message ''a'')), w1)"
    using site_run by blast
  have t: "silkie_try example_site site_args old_dist
      = (Some (FileExistsError (duplicate_message ''a'')), w1)"
    using errors_reported [of "FileExistsError (duplicate_message ''a'')" example_site site_args
        old_dist w1 site_options site_options empty_dist "''site''" "[''site/a.txt'']"
        "''site/a.md''" "[''site/b.md'']" site_a_txt w1 w1]
      site_new_options site_single site_dir site_glob p q
    by (simp add: site_clean)
  have "silkie example_site site_args old_dist
      = (None, echo (Failure (exc_str (FileExistsError (duplicate_message ''a'')))) w1)"
    using errors_reported [of "FileExistsError (duplicate_message ''a'')" example_site site_args
        old_dist w1] t
    by simp
  then show ?thesis using f d by simp
qed

text \<open>
  The failure message is not always a single line: the text of the duplicate-route
  error holds a line feed, so that the message takes two lines of the console.
\<close>

theorem duplicate_route_two_lines:
  "console (snd (silkie example_site site_args old_dist))
     = [Success ''a'', Failure (duplicate_message ''a'')]
   \<and> \<not> single_line (Failure (duplicate_message ''a''))"
proof -
  obtain w1 where c: "console w1 = [Success ''a'']"
    and p: "process_files example_site [''site/a.txt''] site_options empty_dist = (Inr site_a_txt, w1)"
    and q: "process_file example_site ''site/a.md'' site_a_txt w1
         = (Inl (FileExistsError (duplicate_message ''a'')), w1)"
    using site_run by blast
  have "process_files example_site ([''site/a.txt''] @ ''site/a.md'' # [''site/b.md''])
      site_options empty_dist = (Inl (FileExistsError (duplicate_message ''a'')), w1)"
    using p q by (rule scan_stops)
  then have "directory example_site site_options empty_dist
      = (Inl (FileExistsError (duplicate_message ''a'')), w1)"
    using site_dir site_glob by (simp add: directory_def process_extensions_flat)
  then have "silkie example_site site_args old_dist
      = (None, echo (Failure (duplicate_message ''a'')) w1)"
    by (simp add: silkie_def silkie_try_def site_new_options site_clean site_single)
  then show ?thesis
    by (simp add: echo_def c single_line_def duplicate_message_def)
qed

section \<open>A run without flags\<close>

lemma try_no_options: "new_options E args = Inl e \<Longrightarrow> silkie_try E args w = (Some e, w)"
  by (simp add: silkie_try_def)

lemma site_no_flags: "new_options example_site no_flags = Inl (FileNotFoundError [])"
  by (simp add: example_site_def env_defs GeneratorOptions_init_def no_flags_def)

text \<open>
  Claim C9: a run with no flags is a no-op. The constructor of the options raises when
  there is no input path; the exception leaves the \<open>try\<close> block before the clean build,
  so the output directory keeps its paths and its files, and nothing is generated.
\<close>

theorem no_flags_no_op:
  "GeneratorOptions_init path_exists read_config no_flags = Inl (FileNotFoundError [])
   \<and> (new_options E no_flags = Inl e \<longrightarrow>
        silkie_try E no_flags w = (Some e, w)
        \<and> paths (snd (silkie E no_flags w)) = paths w
        \<and> files (snd (silkie E no_flags w)) = files w)"
proof (intro conjI impI)
  show "GeneratorOptions_init path_exists read_config no_flags = Inl (FileNotFoundError [])"
    by (simp add: GeneratorOptions_init_def no_flags_def)
next
  assume n: "new_options E no_flags = Inl e"
  then show "silkie_try E no_flags w = (Some e, w)" by (rule try_no_options)
  from n have s: "silkie E no_flags w = handler e w" by (rule silkie_no_options)
  show "paths (snd (silkie E no_flags w)) = paths w"
    using handler_dist [of e w w E] by (simp add: s)
  show "files (snd (silkie E no_flags w)) = files w"
    using handler_dist [of e w w E] by (simp add: s)
qed

theorem no_flags_no_op_witness:
  "new_options example_site no_flags = Inl (FileNotFoundError [])
   \<and> paths (snd (silkie example_site no_flags old_dist)) = paths old_dist
   \<and> files (snd (silkie example_site no_flags old_dist)) = files old_dist
   \<and> files old_dist ''dist/old.html'' = Some ''<!DOCTYPE html>''"
  using no_flags_no_op [of "\<lambda>p. False" "\<lambda>c. Inl (JSONDecodeError c)" example_site
      "FileNotFoundError []" old_dist] site_no_flags
  by (simp add: old_dist_def)

end
